theory Spec2Isabelle
  imports Complex_Main "HOL-Library.Multiset" "HOL-Library.Sublist" "HOL-Library.Product_Lexorder"
begin

section \<open>Catalog entries\<close>

text \<open>
  A movie is the dictionary decoded from the catalog's JSON. Only the keys read by the
  notifier are modelled; a key that is absent from the dictionary is \<open>None\<close>, so that
  \<^verbatim>\<open>movie.get(k, d)\<close> is a case distinction with \<open>d\<close> for \<open>None\<close>. Ratings and scores
  are Python floats, modelled as exact reals; years and seed counts are Python integers.
  An identifier is kept as a Python value, since \<^verbatim>\<open>get_new_movies\<close> tests its truth value.
\<close>

datatype pyval = PNone | PInt int | PStr string

record torrent =
  quality :: "string option"
  size :: "string option"
  seeds :: "int option"

record movie =
  movie_id :: "pyval option"
  title :: "string option"
  year :: "int option"
  rating :: "real option"
  genres :: "string list option"
  date_uploaded :: "string option"
  torrents :: "torrent list option"
  u_score :: "real option"

datatype py_error = KeyError

text \<open>\<^verbatim>\<open>d.get(k, default)\<close> on a key modelled as an optional field.\<close>

definition py_get :: "'a option \<Rightarrow> 'a \<Rightarrow> 'a" where
  "py_get v d = (case v of None \<Rightarrow> d | Some x \<Rightarrow> x)"

text \<open>Truth value of a Python object, as tested by \<^verbatim>\<open>if movie_id and ...\<close>.\<close>

fun truthy :: "pyval \<Rightarrow> bool" where
  "truthy PNone = False"
| "truthy (PInt n) = (n \<noteq> 0)"
| "truthy (PStr s) = (s \<noteq> [])"

text \<open>\<^verbatim>\<open>movie.get('id')\<close>: the value, or Python's \<open>None\<close> when the key is absent.\<close>

definition get_id :: "movie \<Rightarrow> pyval" where
  "get_id m = (case movie_id m of None \<Rightarrow> PNone | Some v \<Rightarrow> v)"

section \<open>The notifier's state and \<open>get_new_movies\<close>\<close>

text \<open>
  The notifier object holds the set \<^verbatim>\<open>known_movies\<close>, empty at construction and written
  only by \<^verbatim>\<open>get_new_movies\<close>. The method is modelled by state passing: it takes the
  notifier and returns the list \<^verbatim>\<open>new_movies\<close> with the notifier after the loop.
  The three notifier variants of the repository carry the same method text.
\<close>

record notifier =
  known_movies :: "pyval set"

definition init_notifier :: notifier where
  "init_notifier = \<lparr>known_movies = {}\<rparr>"

fun get_new_movies :: "notifier \<Rightarrow> movie list \<Rightarrow> movie list \<times> notifier" where
  "get_new_movies self [] = ([], self)"
| "get_new_movies self (m # ms) =
     (if truthy (get_id m) \<and> get_id m \<notin> known_movies self
      then (let (new_movies, self') =
                  get_new_movies (self\<lparr>known_movies := insert (get_id m) (known_movies self)\<rparr>) ms
            in (m # new_movies, self'))
      else get_new_movies self ms)"

text \<open>Successive polling cycles against one notifier: the outputs in call order, and the
  notifier after the last call.\<close>

fun run_cycles :: "notifier \<Rightarrow> movie list list \<Rightarrow> movie list list \<times> notifier" where
  "run_cycles self [] = ([], self)"
| "run_cycles self (b # bs) =
     (let (out, self1) = get_new_movies self b;
          (outs, self2) = run_cycles self1 bs
      in (out # outs, self2))"

section \<open>Module constants\<close>

text \<open>
  \<^verbatim>\<open>MIN_RATING\<close>, \<^verbatim>\<open>MIN_YEAR\<close> and \<^verbatim>\<open>EXCLUDED_GENRES\<close> are module-level constants that differ
  between the notifier variants; the filter takes them as a record, and
  \<open>enhanced_config\<close> holds the values of \<^verbatim>\<open>enhanced_movie_notifier.py\<close>.
\<close>

record config =
  MIN_RATING :: real
  MIN_YEAR :: int
  EXCLUDED_GENRES :: "string set"

definition enhanced_config :: config where
  "enhanced_config =
     \<lparr>MIN_RATING = 6, MIN_YEAR = 2025,
      EXCLUDED_GENRES = {''Biography'', ''Documentary'', ''Drama'', ''History'', ''Sport'',
                         ''Music'', ''Comedy''}\<rparr>"

definition PREFERRED_GENRES :: "string set" where
  "PREFERRED_GENRES = {''Action'', ''Adventure'', ''Crime'', ''Fantasy'', ''Horror'',
     ''Mystery'', ''Romance'', ''Sci-Fi'', ''Thriller'', ''War'', ''Western''}"

definition high_priority_genres :: "string set" where
  "high_priority_genres = {''Action'', ''Adventure'', ''Thriller'', ''Sci-Fi'', ''Horror''}"

text \<open>The list \<^verbatim>\<open>['2', '3', ..., '9', '10', 'part', 'sequel', 'remake', 'reboot']\<close>: the
  eight one-digit strings, then the five longer ones.\<close>

definition sequel_indicators :: "string list" where
  "sequel_indicators =
     map (\<lambda>digit. [digit]) ''23456789'' @ [''10'', ''part'', ''sequel'', ''remake'', ''reboot'']"

definition famous_patterns :: "string list" where
  "famous_patterns = [''years later'', ''happy'', ''gilmore'', ''sitaare'', ''zameen'', ''par'']"

text \<open>The constant of \<^verbatim>\<open>movie_notifier.py\<close>, which counts Comedy as preferred.\<close>

definition mn_PREFERRED_GENRES :: "string set" where
  "mn_PREFERRED_GENRES = {''Action'', ''Adventure'', ''Comedy'', ''Crime'', ''Fantasy'',
     ''Horror'', ''Mystery'', ''Romance'', ''Sci-Fi'', ''Thriller'', ''War'', ''Western''}"

section \<open>The system clock and the standard library\<close>

text \<open>
  \<^verbatim>\<open>calculate_movie_score(self, movie)\<close> has no time argument: it calls
  \<^verbatim>\<open>datetime.now(date_obj.tzinfo)\<close> for the age of the listing and \<^verbatim>\<open>datetime.now().year\<close>
  for the year bonus. The clock is the environment of the call, a record of what the two
  reads return: the instant, in seconds on the time line of the parsed timestamp, and the
  local year. Time is taken not to advance during one call of the filter.

  \<^verbatim>\<open>datetime.fromisoformat\<close> is a parameter \<open>fromisoformat\<close> of the score: \<open>None\<close> where
  the library raises, otherwise the parsed instant in seconds, so that
  \<^verbatim>\<open>(current_time - date_obj).total_seconds()\<close> is a difference of reals.
  Titles are ASCII strings: \<^verbatim>\<open>str.lower\<close> and \<^verbatim>\<open>str.isdigit\<close> are given on ASCII.
\<close>

record clock =
  now_seconds :: real
  now_year :: int

definition replace_Z :: "string \<Rightarrow> string" where
  "replace_Z s = concat (map (\<lambda>c. if c = CHR ''Z'' then ''+00:00'' else [c]) s)"

definition lower_char :: "char \<Rightarrow> char" where
  "lower_char c =
     (case map_of (zip ''ABCDEFGHIJKLMNOPQRSTUVWXYZ'' ''abcdefghijklmnopqrstuvwxyz'') c of
        None \<Rightarrow> c | Some d \<Rightarrow> d)"

definition lower :: "string \<Rightarrow> string" where
  "lower s = map lower_char s"

definition isdigit :: "char \<Rightarrow> bool" where
  "isdigit c = (c \<in> set ''0123456789'')"

section \<open>\<open>calculate_movie_score\<close> of the enhanced notifier\<close>

text \<open>The score is a running sum; each definition below is one commented block of the
  method, in source order, and gives what the block adds.\<close>

definition recency_bonus :: "(string \<Rightarrow> real option) \<Rightarrow> clock \<Rightarrow> movie \<Rightarrow> real" where
  "recency_bonus fromisoformat clk m =
     (let date_added = py_get (date_uploaded m) [] in
      if date_added \<noteq> [] then
        (case fromisoformat (replace_Z date_added) of
           None \<Rightarrow> 15
         | Some date_obj \<Rightarrow>
             (let hours_since_added = (now_seconds clk - date_obj) / 3600 in
              if hours_since_added \<le> 24 then 100
              else if hours_since_added \<le> 72 then 60
              else if hours_since_added \<le> 168 then 40
              else if hours_since_added \<le> 720 then 20
              else 10))
      else 0)"

definition year_bonus :: "clock \<Rightarrow> movie \<Rightarrow> real" where
  "year_bonus clk m =
     (let year = py_get (year m) 0; current_year = now_year clk in
      if year \<ge> current_year then 25
      else if year \<ge> current_year - 1 then 15
      else if year \<ge> current_year - 2 then 8
      else 0)"

definition genre_bonus :: "movie \<Rightarrow> real" where
  "genre_bonus m =
     (let genres = set (py_get (genres m) []);
          high_priority_count = card (genres \<inter> high_priority_genres);
          preferred_count = card (genres \<inter> PREFERRED_GENRES)
      in real high_priority_count * 5 + real preferred_count * 3
         + (if high_priority_count \<ge> 2 then 15 else 0)
         + (if preferred_count \<ge> 2 then 8 else 0))"

definition total_seeds :: "torrent list \<Rightarrow> int" where
  "total_seeds ts = sum_list (map (\<lambda>t. py_get (seeds t) 0) ts)"

definition torrent_bonus :: "movie \<Rightarrow> real" where
  "torrent_bonus m =
     (let torrents = py_get (torrents m) [] in
      if torrents \<noteq> [] then
        real (min (length torrents) 3) * 2
        + (if total_seeds torrents > 200 then 10
           else if total_seeds torrents > 100 then 6
           else if total_seeds torrents > 50 then 3
           else 0)
      else 0)"

definition title_bonus :: "movie \<Rightarrow> real" where
  "title_bonus m =
     (let title = lower (py_get (title m) []) in
      (if list_ex (\<lambda>indicator. sublist indicator title) sequel_indicators then 20 else 0)
      + (if list_ex isdigit title then 15 else 0)
      + (if list_ex (\<lambda>pattern. sublist pattern title) famous_patterns then 25 else 0))"

definition calculate_movie_score :: "(string \<Rightarrow> real option) \<Rightarrow> clock \<Rightarrow> movie \<Rightarrow> real" where
  "calculate_movie_score fromisoformat clk m =
     0 + py_get (rating m) 0 * 3
       + recency_bonus fromisoformat clk m
       + year_bonus clk m
       + genre_bonus m
       + torrent_bonus m
       + title_bonus m"

section \<open>\<open>calculate_movie_score\<close> of \<^verbatim>\<open>movie_notifier.py\<close>\<close>

definition mn_year_bonus :: "clock \<Rightarrow> movie \<Rightarrow> real" where
  "mn_year_bonus clk m =
     (let year = py_get (year m) 0; current_year = now_year clk in
      if year \<ge> current_year - 1 then 10
      else if year \<ge> current_year - 2 then 5
      else if year \<ge> current_year - 3 then 2
      else 0)"

definition mn_genre_bonus :: "movie \<Rightarrow> real" where
  "mn_genre_bonus m =
     (let genres = set (py_get (genres m) []);
          preferred_count = card (genres \<inter> mn_PREFERRED_GENRES)
      in real preferred_count * 3 + (if preferred_count \<ge> 2 then 5 else 0))"

definition mn_torrent_bonus :: "movie \<Rightarrow> real" where
  "mn_torrent_bonus m =
     (let torrents = py_get (torrents m) [] in
      if torrents \<noteq> [] then
        real (min (length torrents) 3) * 2
        + (if total_seeds torrents > 100 then 5
           else if total_seeds torrents > 50 then 3
           else 0)
      else 0)"

definition mn_calculate_movie_score :: "clock \<Rightarrow> movie \<Rightarrow> real" where
  "mn_calculate_movie_score clk m =
     0 + py_get (rating m) 0 * 2 + mn_year_bonus clk m + mn_genre_bonus m + mn_torrent_bonus m"

section \<open>\<open>filter_high_rated_movies\<close>\<close>

text \<open>
  The loop appends the entries that pass both tests to \<^verbatim>\<open>filtered_movies\<close>, after writing
  the key \<^verbatim>\<open>'_score'\<close> into the dictionary. The dictionaries are shared with the caller's
  list, so the loop returns two lists: \<^verbatim>\<open>filtered_movies\<close>, and the caller's \<^verbatim>\<open>movies\<close> as
  it stands after the loop (its dictionaries taken to be distinct objects). An iteration
  reads nothing that an earlier one wrote, so the recursion on the rest of the list gives
  the lists the loop builds front to back.
\<close>

fun filter_loop ::
  "config \<Rightarrow> (string \<Rightarrow> real option) \<Rightarrow> clock \<Rightarrow> movie list \<Rightarrow> movie list \<times> movie list" where
  "filter_loop cfg fromisoformat clk [] = ([], [])"
| "filter_loop cfg fromisoformat clk (m # ms) =
     (let (filtered_movies, movies') = filter_loop cfg fromisoformat clk ms in
      if py_get (rating m) 0 < MIN_RATING cfg \<or> py_get (year m) 0 < MIN_YEAR cfg
      then (filtered_movies, m # movies')
      else if set (py_get (genres m) []) \<inter> EXCLUDED_GENRES cfg \<noteq> {}
      then (filtered_movies, m # movies')
      else (let m' = m\<lparr>u_score := Some (calculate_movie_score fromisoformat clk m)\<rparr>
            in (m' # filtered_movies, m' # movies')))"

text \<open>
  \<^verbatim>\<open>list.sort(key=..., reverse=True)\<close> is a stable sort that keeps equal keys in their
  original order also when reversed: the list is reversed, sorted stably in ascending
  order, and reversed again. Tuples compare lexicographically. The keys are computed for
  the whole list before any element moves, and the key
  \<^verbatim>\<open>(x['_score'], x.get('rating', 0))\<close> raises \<^verbatim>\<open>KeyError\<close> on a dictionary without
  \<^verbatim>\<open>'_score'\<close>: \<open>sort_movies\<close> returns that error when some entry has no score, and
  \<open>sort_key_of\<close> is the key of an entry that has one.
\<close>

definition py_sort_reverse :: "('a \<Rightarrow> 'k::linorder) \<Rightarrow> 'a list \<Rightarrow> 'a list" where
  "py_sort_reverse f xs = rev (sort_key f (rev xs))"

definition sort_key_of :: "movie \<Rightarrow> real \<times> real" where
  "sort_key_of x = (py_get (u_score x) 0, py_get (rating x) 0)"

definition sort_movies :: "movie list \<Rightarrow> py_error + movie list" where
  "sort_movies xs =
     (if list_all (\<lambda>x. u_score x \<noteq> None) xs
      then Inr (py_sort_reverse sort_key_of xs)
      else Inl KeyError)"

definition filter_high_rated_movies ::
  "config \<Rightarrow> (string \<Rightarrow> real option) \<Rightarrow> clock \<Rightarrow> movie list
     \<Rightarrow> py_error + (movie list \<times> movie list)" where
  "filter_high_rated_movies cfg fromisoformat clk movies =
     (let (filtered_movies, movies') = filter_loop cfg fromisoformat clk movies in
      case sort_movies filtered_movies of
        Inl e \<Rightarrow> Inl e
      | Inr sorted_movies \<Rightarrow> Inr (sorted_movies, movies'))"

section \<open>The admission criterion as the specification words it\<close>

definition spec_admissible :: "config \<Rightarrow> movie \<Rightarrow> bool" where
  "spec_admissible cfg m =
     (py_get (rating m) 0 \<ge> MIN_RATING cfg \<and>
      py_get (year m) 0 \<ge> MIN_YEAR cfg \<and>
      set (py_get (genres m) []) \<inter> EXCLUDED_GENRES cfg = {})"

text \<open>The admitted entries of a list in input order, each carrying the score the loop
  writes into it: what the output is compared with.\<close>

definition admitted_in_order ::
  "config \<Rightarrow> (string \<Rightarrow> real option) \<Rightarrow> clock \<Rightarrow> movie list \<Rightarrow> movie list" where
  "admitted_in_order cfg fromisoformat clk ms =
     map (\<lambda>m. m\<lparr>u_score := Some (calculate_movie_score fromisoformat clk m)\<rparr>)
       (filter (spec_admissible cfg) ms)"

section \<open>Example data\<close>

text \<open>
  A clock standing at 2025-06-20 12:00:00 UTC, and what \<^verbatim>\<open>datetime.fromisoformat\<close> returns on
  the two timestamps the examples use (2 hours and 200 hours before that instant); it
  raises on every other string of the examples.
\<close>

definition ex_fromisoformat :: "string \<Rightarrow> real option" where
  "ex_fromisoformat s =
     (if s = ''2025-06-20T10:00:00+00:00'' then Some 1750413600
      else if s = ''2025-06-12T04:00:00+00:00'' then Some 1749700800
      else None)"

definition ex_clock :: clock where
  "ex_clock = \<lparr>now_seconds = 1750420800, now_year = 2025\<rparr>"

definition ex_torrent :: "int \<Rightarrow> torrent" where
  "ex_torrent n = \<lparr>quality = Some ''1080p'', size = Some ''1.8 GB'', seeds = Some n\<rparr>"

definition ex_movie :: movie where
  "ex_movie = \<lparr>movie_id = Some (PInt 101), title = Some ''Night Watch'', year = Some 2025,
     rating = Some (69 / 10), genres = Some [''Horror'', ''Thriller''],
     date_uploaded = Some ''2025-06-20T10:00:00Z'',
     torrents = Some [ex_torrent 40, ex_torrent 30], u_score = None\<rparr>"

section \<open>Properties of \<open>get_new_movies\<close>\<close>

lemma get_new_movies_known:
  "known_movies (snd (get_new_movies self ms)) =
     known_movies self \<union> {i \<in> get_id ` set ms. truthy i}"
  by (induction ms arbitrary: self) (auto simp: split_beta Let_def)

lemma get_new_movies_ids:
  "get_id ` set (fst (get_new_movies self ms)) =
     {i \<in> get_id ` set ms. truthy i} - known_movies self"
  by (induction ms arbitrary: self) (auto simp: split_beta Let_def)

lemma get_new_movies_distinct:
  "distinct (map get_id (fst (get_new_movies self ms)))"
proof (induction ms arbitrary: self)
  case Nil
  show ?case by simp
next
  case (Cons m ms)
  show ?case
  proof (cases "truthy (get_id m) \<and> get_id m \<notin> known_movies self")
    case True
    let ?s = "self\<lparr>known_movies := insert (get_id m) (known_movies self)\<rparr>"
    have "get_id m \<notin> get_id ` set (fst (get_new_movies ?s ms))"
      by (simp add: get_new_movies_ids)
    with True Cons [of ?s] show ?thesis
      by (simp add: split_beta Let_def)
  next
    case False
    with Cons [of self] show ?thesis by auto
  qed
qed

lemma get_new_movies_nothing_new:
  "\<forall>m \<in> set ms. truthy (get_id m) \<longrightarrow> get_id m \<in> known_movies self \<Longrightarrow>
     get_new_movies self ms = ([], self)"
  by (induction ms arbitrary: self) auto

lemma get_new_movies_append:
  "get_new_movies self (xs @ ys) =
     (fst (get_new_movies self xs) @ fst (get_new_movies (snd (get_new_movies self xs)) ys),
      snd (get_new_movies (snd (get_new_movies self xs)) ys))"
  by (induction xs arbitrary: self) (auto simp: split_beta Let_def)

lemma run_cycles_append:
  "run_cycles self (bs1 @ bs2) =
     (fst (run_cycles self bs1) @ fst (run_cycles (snd (run_cycles self bs1)) bs2),
      snd (run_cycles (snd (run_cycles self bs1)) bs2))"
  by (induction bs1 arbitrary: self) (auto simp: split_beta Let_def)

lemma run_cycles_known:
  "known_movies (snd (run_cycles self bs)) =
     known_movies self \<union> get_id ` (\<Union>out \<in> set (fst (run_cycles self bs)). set out)"
proof (induction bs arbitrary: self)
  case Nil
  show ?case by simp
next
  case (Cons b bs)
  have "known_movies (snd (get_new_movies self b)) =
          known_movies self \<union> get_id ` set (fst (get_new_movies self b))"
    by (auto simp: get_new_movies_known get_new_movies_ids)
  with Cons [of "snd (get_new_movies self b)"] show ?case
    by (simp add: split_beta Let_def image_Un Un_assoc)
qed

lemma run_cycles_fresh:
  "get_id ` (\<Union>out \<in> set (fst (run_cycles self bs)). set out) \<inter> known_movies self = {}"
proof (induction bs arbitrary: self)
  case Nil
  show ?case by simp
next
  case (Cons b bs)
  have "known_movies self \<subseteq> known_movies (snd (get_new_movies self b))"
    by (auto simp: get_new_movies_known)
  moreover have "get_id ` set (fst (get_new_movies self b)) \<inter> known_movies self = {}"
    by (auto simp: get_new_movies_ids)
  ultimately show ?case using Cons [of "snd (get_new_movies self b)"]
    by (simp add: split_beta Let_def image_Un Int_Un_distrib2) blast
qed

lemma set_concat_ids:
  "set (concat (map (map get_id) outs)) = get_id ` (\<Union>out \<in> set outs. set out)"
  by auto

lemma run_cycles_distinct:
  "distinct (concat (map (map get_id) (fst (run_cycles self bs))))"
proof (induction bs arbitrary: self)
  case Nil
  show ?case by simp
next
  case (Cons b bs)
  let ?s = "snd (get_new_movies self b)"
  have "get_id ` set (fst (get_new_movies self b)) \<subseteq> known_movies ?s"
    by (auto simp: get_new_movies_known get_new_movies_ids)
  with run_cycles_fresh [of ?s bs]
  have "get_id ` set (fst (get_new_movies self b)) \<inter>
          set (concat (map (map get_id) (fst (run_cycles ?s bs)))) = {}"
    unfolding set_concat_ids by blast
  with Cons [of ?s] show ?case
    by (simp add: split_beta Let_def get_new_movies_distinct)
qed

text \<open>
  Claim C3. Over any sequence of calls of \<open>get_new_movies\<close> on one notifier, split at any
  point into the calls made so far and the later calls: \<open>known_movies\<close> only grows (the
  state at the split contains the initial one and is contained in the final one, which is
  the state at the split plus the identifiers of the later outputs); no later output
  holds an entry whose identifier is in the state at the split; and the identifiers of
  all outputs of the whole run are pairwise distinct, so each identifier is added once.
\<close>

theorem known_movies_only_grows:
  assumes "run_cycles self bs1 = (outs1, self1)"
    and "run_cycles self1 bs2 = (outs2, self2)"
  shows "run_cycles self (bs1 @ bs2) = (outs1 @ outs2, self2)
       \<and> known_movies self \<subseteq> known_movies self1
       \<and> known_movies self1 \<subseteq> known_movies self2
       \<and> known_movies self2 = known_movies self1 \<union> get_id ` (\<Union>out \<in> set outs2. set out)
       \<and> (\<forall>out \<in> set outs2. \<forall>m \<in> set out. get_id m \<notin> known_movies self1)
       \<and> distinct (concat (map (map get_id) (outs1 @ outs2)))"
proof -
  have o1: "fst (run_cycles self bs1) = outs1" and s1: "snd (run_cycles self bs1) = self1"
    using assms(1) by simp_all
  have o2: "fst (run_cycles self1 bs2) = outs2" and s2: "snd (run_cycles self1 bs2) = self2"
    using assms(2) by simp_all
  have a: "run_cycles self (bs1 @ bs2) = (outs1 @ outs2, self2)"
    by (simp add: run_cycles_append o1 s1 o2 s2)
  have k1: "known_movies self \<subseteq> known_movies self1"
    using run_cycles_known [of self bs1] unfolding o1 s1 by blast
  have k2: "known_movies self2 = known_movies self1 \<union> get_id ` (\<Union>out \<in> set outs2. set out)"
    using run_cycles_known [of self1 bs2] unfolding o2 s2 .
  have k3: "known_movies self1 \<subseteq> known_movies self2"
    unfolding k2 by blast
  have f: "get_id ` (\<Union>out \<in> set outs2. set out) \<inter> known_movies self1 = {}"
    using run_cycles_fresh [of self1 bs2] unfolding o2 .
  have n: "\<forall>out \<in> set outs2. \<forall>m \<in> set out. get_id m \<notin> known_movies self1"
    using f by blast
  have "fst (run_cycles self (bs1 @ bs2)) = outs1 @ outs2"
    using a by simp
  then have d: "distinct (concat (map (map get_id) (outs1 @ outs2)))"
    using run_cycles_distinct [of self "bs1 @ bs2"] by metis
  show ?thesis
    using a k1 k2 k3 n d by (intro conjI)
qed

theorem known_movies_only_grows_witness:
  "run_cycles init_notifier [[ex_movie]] = ([[ex_movie]], \<lparr>known_movies = {PInt 101}\<rparr>)
   \<and> run_cycles \<lparr>known_movies = {PInt 101}\<rparr> [[ex_movie, ex_movie\<lparr>movie_id := Some (PInt 7)\<rparr>]]
       = ([[ex_movie\<lparr>movie_id := Some (PInt 7)\<rparr>]], \<lparr>known_movies = {PInt 7, PInt 101}\<rparr>)
   \<and> run_cycles init_notifier [[ex_movie], [ex_movie, ex_movie\<lparr>movie_id := Some (PInt 7)\<rparr>]]
       = ([[ex_movie], [ex_movie\<lparr>movie_id := Some (PInt 7)\<rparr>]], \<lparr>known_movies = {PInt 7, PInt 101}\<rparr>)
   \<and> get_id ex_movie \<in> {PInt 101}
   \<and> get_id (ex_movie\<lparr>movie_id := Some (PInt 7)\<rparr>) \<notin> {PInt 101}"
proof -
  have h1: "run_cycles init_notifier [[ex_movie]] = ([[ex_movie]], \<lparr>known_movies = {PInt 101}\<rparr>)"
    by (simp add: init_notifier_def get_id_def ex_movie_def)
  have h2: "run_cycles \<lparr>known_movies = {PInt 101}\<rparr> [[ex_movie, ex_movie\<lparr>movie_id := Some (PInt 7)\<rparr>]]
       = ([[ex_movie\<lparr>movie_id := Some (PInt 7)\<rparr>]], \<lparr>known_movies = {PInt 7, PInt 101}\<rparr>)"
    by (simp add: get_id_def ex_movie_def)
  show ?thesis
    using known_movies_only_grows [OF h1 h2] h1 h2
    by (simp add: get_id_def ex_movie_def)
qed

text \<open>
  Claim C4. A second call of \<open>get_new_movies\<close> with the same entries, on the notifier left
  by the first call, returns the empty list and leaves the notifier as it was.
\<close>

theorem second_call_returns_nothing:
  "get_new_movies (snd (get_new_movies self ms)) ms = ([], snd (get_new_movies self ms))"
  by (rule get_new_movies_nothing_new) (simp add: get_new_movies_known)

theorem second_call_returns_nothing_witness:
  "get_new_movies init_notifier [ex_movie, ex_movie\<lparr>movie_id := Some (PInt 7)\<rparr>]
     = ([ex_movie, ex_movie\<lparr>movie_id := Some (PInt 7)\<rparr>], \<lparr>known_movies = {PInt 7, PInt 101}\<rparr>)
   \<and> get_new_movies \<lparr>known_movies = {PInt 7, PInt 101}\<rparr>
         [ex_movie, ex_movie\<lparr>movie_id := Some (PInt 7)\<rparr>]
     = ([], \<lparr>known_movies = {PInt 7, PInt 101}\<rparr>)"
  using second_call_returns_nothing [of init_notifier "[ex_movie, ex_movie\<lparr>movie_id := Some (PInt 7)\<rparr>]"]
  by (simp add: init_notifier_def get_id_def ex_movie_def)

text \<open>
  Claim C10. An entry whose identifier is falsy (\<open>0\<close>, the empty string, \<open>None\<close>) is never
  in the output of \<open>get_new_movies\<close>, its identifier is not added to \<open>known_movies\<close>, and
  the call behaves as if the entry were not in the batch: the same holds for the entry
  with the key \<^verbatim>\<open>'id'\<close> removed.
\<close>

theorem falsy_identifier_is_skipped:
  assumes "\<not> truthy (get_id m)"
  shows "m \<notin> set (fst (get_new_movies self (ms1 @ m # ms2)))
       \<and> (get_id m \<in> known_movies (snd (get_new_movies self (ms1 @ m # ms2)))
            \<longrightarrow> get_id m \<in> known_movies self)
       \<and> get_new_movies self (ms1 @ m # ms2) = get_new_movies self (ms1 @ ms2)
       \<and> get_new_movies self (ms1 @ m\<lparr>movie_id := None\<rparr> # ms2) = get_new_movies self (ms1 @ ms2)"
proof -
  have skip: "get_new_movies s (e # ms2) = get_new_movies s ms2" if "\<not> truthy (get_id e)" for s e
    using that by simp
  have e1: "get_new_movies self (ms1 @ m # ms2) = get_new_movies self (ms1 @ ms2)"
    using assms by (simp add: get_new_movies_append skip)
  have "\<not> truthy (get_id (m\<lparr>movie_id := None\<rparr>))" by (simp add: get_id_def)
  then have e2: "get_new_movies self (ms1 @ m\<lparr>movie_id := None\<rparr> # ms2) = get_new_movies self (ms1 @ ms2)"
    by (simp add: get_new_movies_append skip)
  have "get_id m \<notin> get_id ` set (fst (get_new_movies self (ms1 @ m # ms2)))"
    using assms by (simp add: get_new_movies_ids)
  then have n: "m \<notin> set (fst (get_new_movies self (ms1 @ m # ms2)))" by blast
  have k: "get_id m \<in> known_movies (snd (get_new_movies self (ms1 @ m # ms2)))
            \<longrightarrow> get_id m \<in> known_movies self"
    using assms by (simp add: get_new_movies_known)
  from e1 e2 n k show ?thesis by blast
qed

theorem falsy_identifier_is_skipped_witness:
  "\<not> truthy (get_id (ex_movie\<lparr>movie_id := Some (PInt 0)\<rparr>))
   \<and> \<not> truthy (get_id (ex_movie\<lparr>movie_id := Some (PStr [])\<rparr>))
   \<and> get_new_movies init_notifier
        [ex_movie, ex_movie\<lparr>movie_id := Some (PInt 0)\<rparr>, ex_movie\<lparr>movie_id := Some (PInt 7)\<rparr>]
       = ([ex_movie, ex_movie\<lparr>movie_id := Some (PInt 7)\<rparr>], \<lparr>known_movies = {PInt 7, PInt 101}\<rparr>)
   \<and> get_new_movies init_notifier
        [ex_movie, ex_movie\<lparr>movie_id := None\<rparr>, ex_movie\<lparr>movie_id := Some (PInt 7)\<rparr>]
       = get_new_movies init_notifier [ex_movie, ex_movie\<lparr>movie_id := Some (PInt 7)\<rparr>]"
proof -
  have h: "\<not> truthy (get_id (ex_movie\<lparr>movie_id := Some (PInt 0)\<rparr>))"
    by (simp add: get_id_def)
  show ?thesis
    using falsy_identifier_is_skipped [OF h, of init_notifier "[ex_movie]"
        "[ex_movie\<lparr>movie_id := Some (PInt 7)\<rparr>]"]
    by (simp add: init_notifier_def get_id_def ex_movie_def)
qed

section \<open>Properties of \<open>filter_high_rated_movies\<close>\<close>

lemma spec_admissible_score_upd:
  "spec_admissible cfg (m\<lparr>u_score := v\<rparr>) = spec_admissible cfg m"
  by (simp add: spec_admissible_def)

lemma filter_loop_fst:
  "fst (filter_loop cfg p clk ms) =
     map (\<lambda>m. m\<lparr>u_score := Some (calculate_movie_score p clk m)\<rparr>) (filter (spec_admissible cfg) ms)"
  by (induction ms) (auto simp: split_beta Let_def spec_admissible_def)

lemma filter_loop_snd:
  "snd (filter_loop cfg p clk ms) =
     map (\<lambda>m. if spec_admissible cfg m
               then m\<lparr>u_score := Some (calculate_movie_score p clk m)\<rparr> else m) ms"
  by (induction ms) (auto simp: split_beta Let_def spec_admissible_def)

lemma filter_loop_fst_post:
  "fst (filter_loop cfg p clk ms) = filter (spec_admissible cfg) (snd (filter_loop cfg p clk ms))"
  by (induction ms) (auto simp: split_beta Let_def spec_admissible_def)

lemma filter_loop_scored:
  "list_all (\<lambda>x. u_score x \<noteq> None) (fst (filter_loop cfg p clk ms))"
  by (induction ms) (auto simp: split_beta Let_def)

lemma filter_high_rated_movies_total:
  "filter_high_rated_movies cfg p clk ms =
     Inr (py_sort_reverse sort_key_of (fst (filter_loop cfg p clk ms)),
          snd (filter_loop cfg p clk ms))"
  using filter_loop_scored [of cfg p clk ms]
  by (simp add: filter_high_rated_movies_def split_beta sort_movies_def)

lemma mset_py_sort_reverse: "mset (py_sort_reverse f xs) = mset xs"
  by (simp add: py_sort_reverse_def)

lemma set_py_sort_reverse: "set (py_sort_reverse f xs) = set xs"
  by (simp add: py_sort_reverse_def)

lemma py_sort_reverse_stable:
  "filter (\<lambda>y. f y = k) (py_sort_reverse f xs) = filter (\<lambda>y. f y = k) xs"
  by (simp add: py_sort_reverse_def rev_filter [symmetric] sort_key_stable)

lemma py_sort_reverse_descending:
  "sorted_wrt (\<lambda>a b. f a \<ge> f b) (py_sort_reverse f xs)"
proof -
  have "sorted (map f (sort_key f (rev xs)))" by (rule sorted_sort_key)
  then have "sorted_wrt (\<lambda>a b. f a \<le> f b) (sort_key f (rev xs))"
    by (simp add: sorted_map)
  then show ?thesis
    by (simp add: py_sort_reverse_def sorted_wrt_rev)
qed

lemma py_sort_reverse_id:
  assumes "sorted_wrt (\<lambda>a b. f a \<ge> f b) xs"
  shows "py_sort_reverse f xs = xs"
proof -
  from assms have "sorted_wrt (\<lambda>a b. f a \<le> f b) (rev xs)"
    by (simp add: sorted_wrt_rev)
  then have "sorted (map f (rev xs))" by (simp add: sorted_map)
  then have "sort_key f (rev xs) = rev xs" by (rule sort_key_id_if_sorted)
  then show ?thesis by (simp add: py_sort_reverse_def)
qed

lemma score_ignores_u_score:
  "calculate_movie_score p clk (m\<lparr>u_score := v\<rparr>) = calculate_movie_score p clk m"
  by (simp add: calculate_movie_score_def recency_bonus_def year_bonus_def genre_bonus_def
      torrent_bonus_def title_bonus_def)

lemma card_inter_list:
  "card (set xs \<inter> A) = length (filter (\<lambda>x. x \<in> A) (remdups xs))"
proof -
  have "set xs \<inter> A = set (filter (\<lambda>x. x \<in> A) (remdups xs))" by auto
  moreover have "distinct (filter (\<lambda>x. x \<in> A) (remdups xs))" by simp
  ultimately show ?thesis by (metis distinct_card)
qed

lemmas eval_defs = calculate_movie_score_def recency_bonus_def year_bonus_def genre_bonus_def
  torrent_bonus_def title_bonus_def total_seeds_def py_get_def replace_Z_def lower_def
  lower_char_def isdigit_def sequel_indicators_def famous_patterns_def PREFERRED_GENRES_def
  high_priority_genres_def card_inter_list ex_fromisoformat_def ex_clock_def ex_movie_def
  ex_torrent_def Let_def sublist_code prefix_code enhanced_config_def
  filter_high_rated_movies_def sort_movies_def py_sort_reverse_def sort_key_of_def
  spec_admissible_def

text \<open>
  Claim C1. For every configuration and input list, \<open>filter_high_rated_movies\<close> returns,
  and its output holds exactly the input entries with rating \<open>\<ge> MIN_RATING\<close>, year
  \<open>\<ge> MIN_YEAR\<close> and no genre in \<open>EXCLUDED_GENRES\<close>, each once per occurrence and carrying
  its score; a missing rating or year counts as \<open>0\<close>, so such an entry is rejected when
  the minimum is positive. The caller's list after the call, \<open>movies'\<close>, holds the same
  dictionaries as the output, so membership is read there.
\<close>

theorem admission_criterion:
  "\<exists>out movies'.
     filter_high_rated_movies cfg p clk ms = Inr (out, movies') \<and>
     mset out = mset (map (\<lambda>m. m\<lparr>u_score := Some (calculate_movie_score p clk m)\<rparr>)
                      (filter (spec_admissible cfg) ms)) \<and>
     length movies' = length ms \<and>
     (\<forall>i < length ms. movies' ! i \<in> set out \<longleftrightarrow> spec_admissible cfg (ms ! i)) \<and>
     (\<forall>i < length ms.
        (rating (ms ! i) = None \<and> 0 < MIN_RATING cfg) \<or> (year (ms ! i) = None \<and> 0 < MIN_YEAR cfg)
        \<longrightarrow> movies' ! i \<notin> set out)"
proof -
  let ?ann = "\<lambda>m. m\<lparr>u_score := Some (calculate_movie_score p clk m)\<rparr>"
  let ?out = "py_sort_reverse sort_key_of (fst (filter_loop cfg p clk ms))"
  let ?post = "snd (filter_loop cfg p clk ms)"
  have r: "filter_high_rated_movies cfg p clk ms = Inr (?out, ?post)"
    by (rule filter_high_rated_movies_total)
  have m: "mset ?out = mset (map ?ann (filter (spec_admissible cfg) ms))"
    by (simp add: mset_py_sort_reverse filter_loop_fst)
  have l: "length ?post = length ms"
    by (simp add: filter_loop_snd)
  have s: "set ?out = ?ann ` {m \<in> set ms. spec_admissible cfg m}"
    by (simp add: set_py_sort_reverse filter_loop_fst)
  have adm_out: "spec_admissible cfg x" if "x \<in> set ?out" for x
    using that unfolding s by (auto simp: spec_admissible_score_upd)
  have iff: "?post ! i \<in> set ?out \<longleftrightarrow> spec_admissible cfg (ms ! i)" if "i < length ms" for i
  proof (cases "spec_admissible cfg (ms ! i)")
    case True
    with that have "?post ! i = ?ann (ms ! i)" by (simp add: filter_loop_snd)
    moreover from True that have "?ann (ms ! i) \<in> set ?out" unfolding s by auto
    ultimately show ?thesis using True by simp
  next
    case False
    with that have "?post ! i = ms ! i" by (simp add: filter_loop_snd)
    with False adm_out [of "?post ! i"] show ?thesis by auto
  qed
  have miss: "?post ! i \<notin> set ?out"
    if "i < length ms"
      "(rating (ms ! i) = None \<and> 0 < MIN_RATING cfg) \<or> (year (ms ! i) = None \<and> 0 < MIN_YEAR cfg)"
    for i
  proof -
    from that(2) have "\<not> spec_admissible cfg (ms ! i)"
      by (auto simp: spec_admissible_def py_get_def)
    with iff [OF that(1)] show ?thesis by simp
  qed
  from r m l iff miss show ?thesis by blast
qed

theorem admission_criterion_witness:
  "filter_high_rated_movies enhanced_config ex_fromisoformat ex_clock
     [ex_movie, ex_movie\<lparr>rating := None\<rparr>, ex_movie\<lparr>genres := Some [''Comedy'']\<rparr>]
     = Inr ([ex_movie\<lparr>u_score := Some (1917 / 10)\<rparr>],
            [ex_movie\<lparr>u_score := Some (1917 / 10)\<rparr>, ex_movie\<lparr>rating := None\<rparr>,
             ex_movie\<lparr>genres := Some [''Comedy'']\<rparr>])
   \<and> spec_admissible enhanced_config ex_movie
   \<and> \<not> spec_admissible enhanced_config (ex_movie\<lparr>rating := None\<rparr>)
   \<and> \<not> spec_admissible enhanced_config (ex_movie\<lparr>genres := Some [''Comedy'']\<rparr>)"
proof -
  let ?ms = "[ex_movie, ex_movie\<lparr>rating := None\<rparr>, ex_movie\<lparr>genres := Some [''Comedy'']\<rparr>]"
  let ?out = "[ex_movie\<lparr>u_score := Some (1917 / 10)\<rparr>]"
  let ?post = "[ex_movie\<lparr>u_score := Some (1917 / 10)\<rparr>, ex_movie\<lparr>rating := None\<rparr>,
             ex_movie\<lparr>genres := Some [''Comedy'']\<rparr>]"
  have e: "filter_high_rated_movies enhanced_config ex_fromisoformat ex_clock ?ms = Inr (?out, ?post)"
    by code_simp
  from admission_criterion [of enhanced_config ex_fromisoformat ex_clock ?ms]
  obtain out movies' where
    r: "filter_high_rated_movies enhanced_config ex_fromisoformat ex_clock ?ms = Inr (out, movies')"
    and i: "\<forall>i < length ?ms. movies' ! i \<in> set out \<longleftrightarrow> spec_admissible enhanced_config (?ms ! i)"
    by blast
  from r e have o: "out = ?out" and p: "movies' = ?post" by simp_all
  have a0: "spec_admissible enhanced_config ex_movie"
    using i [rule_format, of 0] unfolding o p by simp
  have a1: "\<not> spec_admissible enhanced_config (ex_movie\<lparr>rating := None\<rparr>)"
    using i [rule_format, of 1] unfolding o p by (simp add: ex_movie_def)
  have a2: "\<not> spec_admissible enhanced_config (ex_movie\<lparr>genres := Some [''Comedy'']\<rparr>)"
    using i [rule_format, of 2] unfolding o p by (simp add: ex_movie_def)
  from e a0 a1 a2 show ?thesis by simp
qed

text \<open>
  Claim C9, as stated, fails: \<open>filter_high_rated_movies\<close> writes the key \<^verbatim>\<open>'_score'\<close> into
  every entry it admits, and the dictionaries are the caller's. On the one-entry list
  below the caller's entry has no \<^verbatim>\<open>'_score'\<close> before the call and has one after it.
\<close>

theorem filter_changes_input_counterexample:
  "filter_high_rated_movies enhanced_config ex_fromisoformat ex_clock [ex_movie]
     = Inr ([ex_movie\<lparr>u_score := Some (1917 / 10)\<rparr>], [ex_movie\<lparr>u_score := Some (1917 / 10)\<rparr>])
   \<and> u_score ex_movie = None
   \<and> [ex_movie\<lparr>u_score := Some (1917 / 10)\<rparr>] \<noteq> [ex_movie]"
proof -
  have "filter_high_rated_movies enhanced_config ex_fromisoformat ex_clock [ex_movie]
     = Inr ([ex_movie\<lparr>u_score := Some (1917 / 10)\<rparr>], [ex_movie\<lparr>u_score := Some (1917 / 10)\<rparr>])"
    by code_simp
  then show ?thesis by (simp add: ex_movie_def)
qed

text \<open>
  Claim C9, amended. The call returns, and changes the caller's entries in one way only:
  each entry that meets the admission criterion has its \<^verbatim>\<open>'_score'\<close> set to its computed
  score; every other field of it, and every rejected entry, is as before, in the same
  positions.
\<close>

theorem filter_writes_only_score:
  "\<exists>out. filter_high_rated_movies cfg p clk ms =
     Inr (out, map (\<lambda>m. if spec_admissible cfg m
                          then m\<lparr>u_score := Some (calculate_movie_score p clk m)\<rparr> else m) ms)"
  by (simp add: filter_high_rated_movies_total filter_loop_snd)

theorem filter_writes_only_score_witness:
  "filter_high_rated_movies enhanced_config ex_fromisoformat ex_clock
     [ex_movie\<lparr>rating := Some 5\<rparr>, ex_movie]
   = Inr ([ex_movie\<lparr>u_score := Some (1917 / 10)\<rparr>],
          [ex_movie\<lparr>rating := Some 5\<rparr>, ex_movie\<lparr>u_score := Some (1917 / 10)\<rparr>])"
proof -
  have e: "filter_high_rated_movies enhanced_config ex_fromisoformat ex_clock
     [ex_movie\<lparr>rating := Some 5\<rparr>, ex_movie]
   = Inr ([ex_movie\<lparr>u_score := Some (1917 / 10)\<rparr>],
          [ex_movie\<lparr>rating := Some 5\<rparr>, ex_movie\<lparr>u_score := Some (1917 / 10)\<rparr>])"
    by code_simp
  from filter_writes_only_score [of enhanced_config ex_fromisoformat ex_clock
      "[ex_movie\<lparr>rating := Some 5\<rparr>, ex_movie]"] e
  show ?thesis by simp
qed

text \<open>
  Claim C5, as stated, fails: the method sorts the admitted entries before returning
  them. Of two admitted entries the second, rated higher, is returned first, so the
  output is not a subsequence of the caller's list.
\<close>

theorem filter_reorders_counterexample:
  "filter_high_rated_movies enhanced_config ex_fromisoformat ex_clock
     [ex_movie, ex_movie\<lparr>rating := Some 9\<rparr>]
   = Inr ([ex_movie\<lparr>rating := Some 9, u_score := Some 198\<rparr>, ex_movie\<lparr>u_score := Some (1917 / 10)\<rparr>],
          [ex_movie\<lparr>u_score := Some (1917 / 10)\<rparr>, ex_movie\<lparr>rating := Some 9, u_score := Some 198\<rparr>])
   \<and> \<not> subseq
         [ex_movie\<lparr>rating := Some 9, u_score := Some 198\<rparr>, ex_movie\<lparr>u_score := Some (1917 / 10)\<rparr>]
         [ex_movie\<lparr>u_score := Some (1917 / 10)\<rparr>, ex_movie\<lparr>rating := Some 9, u_score := Some 198\<rparr>]"
proof -
  have "filter_high_rated_movies enhanced_config ex_fromisoformat ex_clock
     [ex_movie, ex_movie\<lparr>rating := Some 9\<rparr>]
   = Inr ([ex_movie\<lparr>rating := Some 9, u_score := Some 198\<rparr>, ex_movie\<lparr>u_score := Some (1917 / 10)\<rparr>],
          [ex_movie\<lparr>u_score := Some (1917 / 10)\<rparr>, ex_movie\<lparr>rating := Some 9, u_score := Some 198\<rparr>])"
    by code_simp
  moreover have "\<not> subseq
         [ex_movie\<lparr>rating := Some 9, u_score := Some 198\<rparr>, ex_movie\<lparr>u_score := Some (1917 / 10)\<rparr>]
         [ex_movie\<lparr>u_score := Some (1917 / 10)\<rparr>, ex_movie\<lparr>rating := Some 9, u_score := Some 198\<rparr>]"
    by (simp add: ex_movie_def)
  ultimately show ?thesis by simp
qed

text \<open>
  Claim C5, amended. With \<open>admitted_in_order\<close> the admitted entries of the input in input
  order, each carrying its score: the caller's list after the call is the input with
  exactly those entries annotated, and they form a subsequence of it; every entry of the
  output is an entry of that list, and the output has the same entries as
  \<open>admitted_in_order\<close>, each as often (nothing is inserted or dropped). The output is in
  descending order of the sort key \<open>(score, rating)\<close>; entries with equal key keep their
  relative input order; when the admitted entries already stand in descending key order
  the output is exactly \<open>admitted_in_order\<close>; and the empty input gives the empty output.
\<close>

theorem filter_output_order:
  "\<exists>out movies'.
     filter_high_rated_movies cfg p clk ms = Inr (out, movies') \<and>
     movies' = map (\<lambda>m. if spec_admissible cfg m
                          then m\<lparr>u_score := Some (calculate_movie_score p clk m)\<rparr> else m) ms \<and>
     filter (spec_admissible cfg) movies' = admitted_in_order cfg p clk ms \<and>
     subseq (admitted_in_order cfg p clk ms) movies' \<and>
     set out \<subseteq> set movies' \<and>
     mset out = mset (admitted_in_order cfg p clk ms) \<and>
     sorted_wrt (\<lambda>a b. sort_key_of a \<ge> sort_key_of b) out \<and>
     (\<forall>k. filter (\<lambda>m. sort_key_of m = k) out
           = filter (\<lambda>m. sort_key_of m = k) (admitted_in_order cfg p clk ms)) \<and>
     (sorted_wrt (\<lambda>a b. sort_key_of a \<ge> sort_key_of b) (admitted_in_order cfg p clk ms)
        \<longrightarrow> out = admitted_in_order cfg p clk ms) \<and>
     (ms = [] \<longrightarrow> out = [])"
proof -
  let ?A = "admitted_in_order cfg p clk ms"
  let ?out = "py_sort_reverse sort_key_of ?A"
  let ?post = "snd (filter_loop cfg p clk ms)"
  have fs: "fst (filter_loop cfg p clk ms) = ?A"
    by (simp add: filter_loop_fst admitted_in_order_def)
  have r: "filter_high_rated_movies cfg p clk ms = Inr (?out, ?post)"
    unfolding filter_high_rated_movies_total fs ..
  have pm: "?post = map (\<lambda>m. if spec_admissible cfg m
                          then m\<lparr>u_score := Some (calculate_movie_score p clk m)\<rparr> else m) ms"
    by (rule filter_loop_snd)
  have fa: "filter (spec_admissible cfg) ?post = ?A"
    using filter_loop_fst_post [of cfg p clk ms] unfolding fs by simp
  have q: "subseq ?A ?post"
    by (subst fa [symmetric]) simp
  have s: "set ?out \<subseteq> set ?post"
    unfolding set_py_sort_reverse by (subst fa [symmetric]) simp
  have m: "mset ?out = mset ?A"
    by (rule mset_py_sort_reverse)
  have d: "sorted_wrt (\<lambda>a b. sort_key_of a \<ge> sort_key_of b) ?out"
    by (rule py_sort_reverse_descending)
  have t: "\<forall>k. filter (\<lambda>m. sort_key_of m = k) ?out = filter (\<lambda>m. sort_key_of m = k) ?A"
    by (simp add: py_sort_reverse_stable)
  have i: "sorted_wrt (\<lambda>a b. sort_key_of a \<ge> sort_key_of b) ?A \<longrightarrow> ?out = ?A"
    by (simp add: py_sort_reverse_id)
  have e: "ms = [] \<longrightarrow> ?out = []"
    by (simp add: py_sort_reverse_def admitted_in_order_def)
  show ?thesis
    apply (rule exI [of _ ?out])
    apply (rule exI [of _ ?post])
    using r pm fa q s m d t i e apply (intro conjI)
             apply assumption+
    done
qed

theorem filter_output_order_witness:
  "filter_high_rated_movies enhanced_config ex_fromisoformat ex_clock
     [ex_movie, ex_movie\<lparr>rating := Some 9\<rparr>, ex_movie\<lparr>movie_id := Some (PInt 7)\<rparr>]
   = Inr ([ex_movie\<lparr>rating := Some 9, u_score := Some 198\<rparr>,
           ex_movie\<lparr>u_score := Some (1917 / 10)\<rparr>,
           ex_movie\<lparr>movie_id := Some (PInt 7), u_score := Some (1917 / 10)\<rparr>],
          [ex_movie\<lparr>u_score := Some (1917 / 10)\<rparr>,
           ex_movie\<lparr>rating := Some 9, u_score := Some 198\<rparr>,
           ex_movie\<lparr>movie_id := Some (PInt 7), u_score := Some (1917 / 10)\<rparr>])
   \<and> admitted_in_order enhanced_config ex_fromisoformat ex_clock
       [ex_movie, ex_movie\<lparr>rating := Some 9\<rparr>, ex_movie\<lparr>movie_id := Some (PInt 7)\<rparr>]
     = [ex_movie\<lparr>u_score := Some (1917 / 10)\<rparr>,
        ex_movie\<lparr>rating := Some 9, u_score := Some 198\<rparr>,
        ex_movie\<lparr>movie_id := Some (PInt 7), u_score := Some (1917 / 10)\<rparr>]
   \<and> mset [ex_movie\<lparr>rating := Some 9, u_score := Some 198\<rparr>,
           ex_movie\<lparr>u_score := Some (1917 / 10)\<rparr>,
           ex_movie\<lparr>movie_id := Some (PInt 7), u_score := Some (1917 / 10)\<rparr>]
     = mset (admitted_in_order enhanced_config ex_fromisoformat ex_clock
          [ex_movie, ex_movie\<lparr>rating := Some 9\<rparr>, ex_movie\<lparr>movie_id := Some (PInt 7)\<rparr>])
   \<and> sorted_wrt (\<lambda>a b. sort_key_of a \<ge> sort_key_of b)
         [ex_movie\<lparr>rating := Some 9, u_score := Some 198\<rparr>,
           ex_movie\<lparr>u_score := Some (1917 / 10)\<rparr>,
           ex_movie\<lparr>movie_id := Some (PInt 7), u_score := Some (1917 / 10)\<rparr>]
   \<and> filter (\<lambda>m. sort_key_of m = (1917 / 10, 69 / 10))
         [ex_movie\<lparr>rating := Some 9, u_score := Some 198\<rparr>,
           ex_movie\<lparr>u_score := Some (1917 / 10)\<rparr>,
           ex_movie\<lparr>movie_id := Some (PInt 7), u_score := Some (1917 / 10)\<rparr>]
     = filter (\<lambda>m. sort_key_of m = (1917 / 10, 69 / 10))
         (admitted_in_order enhanced_config ex_fromisoformat ex_clock
          [ex_movie, ex_movie\<lparr>rating := Some 9\<rparr>, ex_movie\<lparr>movie_id := Some (PInt 7)\<rparr>])"
proof -
  let ?ms = "[ex_movie, ex_movie\<lparr>rating := Some 9\<rparr>, ex_movie\<lparr>movie_id := Some (PInt 7)\<rparr>]"
  let ?out = "[ex_movie\<lparr>rating := Some 9, u_score := Some 198\<rparr>,
           ex_movie\<lparr>u_score := Some (1917 / 10)\<rparr>,
           ex_movie\<lparr>movie_id := Some (PInt 7), u_score := Some (1917 / 10)\<rparr>]"
  let ?post = "[ex_movie\<lparr>u_score := Some (1917 / 10)\<rparr>,
           ex_movie\<lparr>rating := Some 9, u_score := Some 198\<rparr>,
           ex_movie\<lparr>movie_id := Some (PInt 7), u_score := Some (1917 / 10)\<rparr>]"
  have e: "filter_high_rated_movies enhanced_config ex_fromisoformat ex_clock ?ms = Inr (?out, ?post)"
    by code_simp
  have a: "admitted_in_order enhanced_config ex_fromisoformat ex_clock ?ms = ?post"
    by code_simp
  from filter_output_order [of enhanced_config ex_fromisoformat ex_clock ?ms]
  obtain out movies' where
    r: "filter_high_rated_movies enhanced_config ex_fromisoformat ex_clock ?ms = Inr (out, movies')"
    and m: "mset out = mset (admitted_in_order enhanced_config ex_fromisoformat ex_clock ?ms)"
    and d: "sorted_wrt (\<lambda>a b. sort_key_of a \<ge> sort_key_of b) out"
    and t: "\<forall>k. filter (\<lambda>m. sort_key_of m = k) out
           = filter (\<lambda>m. sort_key_of m = k)
               (admitted_in_order enhanced_config ex_fromisoformat ex_clock ?ms)"
    by blast
  from r e have o: "out = ?out" by simp
  from e a m d t [rule_format, of "(1917 / 10, 69 / 10)"] show ?thesis
    unfolding o by (intro conjI)
qed

text \<open>
  Claim C6. The list returned by \<open>filter_high_rated_movies\<close> has the same entries as
  \<open>admitted_in_order\<close> of the input, carries for each entry the score computed for it, and
  is in descending order of score, with ties on the score in descending order of rating;
  entries equal in both score and rating stand in the order they have in the input. The
  same holds of the sort step alone: on every list of entries that carry a score,
  \<open>sort_movies\<close> returns a rearrangement of the list in that order, with entries equal in
  score and rating in their order in the list.
\<close>

theorem presentation_order:
  "(\<exists>out movies'.
      filter_high_rated_movies cfg p clk ms = Inr (out, movies') \<and>
      mset out = mset (admitted_in_order cfg p clk ms) \<and>
      list_all (\<lambda>m. u_score m = Some (calculate_movie_score p clk m)) out \<and>
      sorted_wrt (\<lambda>a b. py_get (u_score a) 0 > py_get (u_score b) 0 \<or>
                         (py_get (u_score a) 0 = py_get (u_score b) 0 \<and>
                          py_get (rating a) 0 \<ge> py_get (rating b) 0)) out \<and>
      (\<forall>s r. filter (\<lambda>m. py_get (u_score m) 0 = s \<and> py_get (rating m) 0 = r) out
            = filter (\<lambda>m. py_get (u_score m) 0 = s \<and> py_get (rating m) 0 = r)
                (admitted_in_order cfg p clk ms)))
   \<and> (list_all (\<lambda>x. u_score x \<noteq> None) xs \<longrightarrow>
       (\<exists>sorted_movies.
          sort_movies xs = Inr sorted_movies \<and>
          mset sorted_movies = mset xs \<and>
          sorted_wrt (\<lambda>a b. py_get (u_score a) 0 > py_get (u_score b) 0 \<or>
                             (py_get (u_score a) 0 = py_get (u_score b) 0 \<and>
                              py_get (rating a) 0 \<ge> py_get (rating b) 0)) sorted_movies \<and>
          (\<forall>s r. filter (\<lambda>m. py_get (u_score m) 0 = s \<and> py_get (rating m) 0 = r) sorted_movies
                = filter (\<lambda>m. py_get (u_score m) 0 = s \<and> py_get (rating m) 0 = r) xs)))"
proof -
  have desc: "sorted_wrt (\<lambda>a b. py_get (u_score a) 0 > py_get (u_score b) 0 \<or>
                        (py_get (u_score a) 0 = py_get (u_score b) 0 \<and>
                         py_get (rating a) 0 \<ge> py_get (rating b) 0))
                (py_sort_reverse sort_key_of ys)" for ys
  proof -
    have "sorted_wrt (\<lambda>a b. sort_key_of a \<ge> sort_key_of b) (py_sort_reverse sort_key_of ys)"
      by (rule py_sort_reverse_descending)
    then show ?thesis
      by (rule sorted_wrt_mono_rel [rotated]) (auto simp: sort_key_of_def)
  qed
  have stab: "filter (\<lambda>m. py_get (u_score m) 0 = s \<and> py_get (rating m) 0 = r)
                (py_sort_reverse sort_key_of ys)
              = filter (\<lambda>m. py_get (u_score m) 0 = s \<and> py_get (rating m) 0 = r) ys" for s r ys
  proof -
    have "filter (\<lambda>m. sort_key_of m = (s, r)) (py_sort_reverse sort_key_of ys)
            = filter (\<lambda>m. sort_key_of m = (s, r)) ys"
      by (rule py_sort_reverse_stable)
    then show ?thesis
      unfolding sort_key_of_def prod.inject .
  qed
  let ?A = "admitted_in_order cfg p clk ms"
  let ?out = "py_sort_reverse sort_key_of ?A"
  let ?post = "snd (filter_loop cfg p clk ms)"
  have fs: "fst (filter_loop cfg p clk ms) = ?A"
    by (simp add: filter_loop_fst admitted_in_order_def)
  have r: "filter_high_rated_movies cfg p clk ms = Inr (?out, ?post)"
    unfolding filter_high_rated_movies_total fs ..
  have m: "mset ?out = mset ?A"
    by (rule mset_py_sort_reverse)
  have "list_all (\<lambda>m. u_score m = Some (calculate_movie_score p clk m)) ?A"
    by (simp add: admitted_in_order_def list_all_iff score_ignores_u_score)
  then have a: "list_all (\<lambda>m. u_score m = Some (calculate_movie_score p clk m)) ?out"
    by (simp add: list_all_iff set_py_sort_reverse)
  have first: "\<exists>out movies'.
      filter_high_rated_movies cfg p clk ms = Inr (out, movies') \<and>
      mset out = mset ?A \<and>
      list_all (\<lambda>m. u_score m = Some (calculate_movie_score p clk m)) out \<and>
      sorted_wrt (\<lambda>a b. py_get (u_score a) 0 > py_get (u_score b) 0 \<or>
                         (py_get (u_score a) 0 = py_get (u_score b) 0 \<and>
                          py_get (rating a) 0 \<ge> py_get (rating b) 0)) out \<and>
      (\<forall>s r. filter (\<lambda>m. py_get (u_score m) 0 = s \<and> py_get (rating m) 0 = r) out
            = filter (\<lambda>m. py_get (u_score m) 0 = s \<and> py_get (rating m) 0 = r) ?A)"
    apply (rule exI [of _ ?out])
    apply (rule exI [of _ ?post])
    using r m a desc [of ?A] stab [of _ _ ?A] apply (intro conjI allI)
        apply assumption+
    done
  have second: "\<exists>sorted_movies.
          sort_movies xs = Inr sorted_movies \<and>
          mset sorted_movies = mset xs \<and>
          sorted_wrt (\<lambda>a b. py_get (u_score a) 0 > py_get (u_score b) 0 \<or>
                             (py_get (u_score a) 0 = py_get (u_score b) 0 \<and>
                              py_get (rating a) 0 \<ge> py_get (rating b) 0)) sorted_movies \<and>
          (\<forall>s r. filter (\<lambda>m. py_get (u_score m) 0 = s \<and> py_get (rating m) 0 = r) sorted_movies
                = filter (\<lambda>m. py_get (u_score m) 0 = s \<and> py_get (rating m) 0 = r) xs)"
    if h: "list_all (\<lambda>x. u_score x \<noteq> None) xs"
  proof -
    from h have "sort_movies xs = Inr (py_sort_reverse sort_key_of xs)"
      unfolding sort_movies_def by (rule if_P)
    moreover have "mset (py_sort_reverse sort_key_of xs) = mset xs"
      by (rule mset_py_sort_reverse)
    ultimately show ?thesis
      using desc [of xs] stab [of _ _ xs] by blast
  qed
  from first second show ?thesis by blast
qed

theorem presentation_order_witness:
  "filter_high_rated_movies enhanced_config ex_fromisoformat ex_clock
     [ex_movie, ex_movie\<lparr>rating := Some 9\<rparr>, ex_movie\<lparr>movie_id := Some (PInt 7)\<rparr>]
   = Inr ([ex_movie\<lparr>rating := Some 9, u_score := Some 198\<rparr>,
           ex_movie\<lparr>u_score := Some (1917 / 10)\<rparr>,
           ex_movie\<lparr>movie_id := Some (PInt 7), u_score := Some (1917 / 10)\<rparr>],
          [ex_movie\<lparr>u_score := Some (1917 / 10)\<rparr>,
           ex_movie\<lparr>rating := Some 9, u_score := Some 198\<rparr>,
           ex_movie\<lparr>movie_id := Some (PInt 7), u_score := Some (1917 / 10)\<rparr>])
   \<and> filter (\<lambda>m. py_get (u_score m) 0 = 1917 / 10 \<and> py_get (rating m) 0 = 69 / 10)
         [ex_movie\<lparr>rating := Some 9, u_score := Some 198\<rparr>,
           ex_movie\<lparr>u_score := Some (1917 / 10)\<rparr>,
           ex_movie\<lparr>movie_id := Some (PInt 7), u_score := Some (1917 / 10)\<rparr>]
     = filter (\<lambda>m. py_get (u_score m) 0 = 1917 / 10 \<and> py_get (rating m) 0 = 69 / 10)
         (admitted_in_order enhanced_config ex_fromisoformat ex_clock
          [ex_movie, ex_movie\<lparr>rating := Some 9\<rparr>, ex_movie\<lparr>movie_id := Some (PInt 7)\<rparr>])
   \<and> list_all (\<lambda>x. u_score x \<noteq> None)
         [ex_movie\<lparr>u_score := Some 5\<rparr>, ex_movie\<lparr>movie_id := Some (PInt 7), u_score := Some 5\<rparr>,
          ex_movie\<lparr>u_score := Some 8\<rparr>]
   \<and> sort_movies
         [ex_movie\<lparr>u_score := Some 5\<rparr>, ex_movie\<lparr>movie_id := Some (PInt 7), u_score := Some 5\<rparr>,
          ex_movie\<lparr>u_score := Some 8\<rparr>]
     = Inr [ex_movie\<lparr>u_score := Some 8\<rparr>, ex_movie\<lparr>u_score := Some 5\<rparr>,
            ex_movie\<lparr>movie_id := Some (PInt 7), u_score := Some 5\<rparr>]
   \<and> sorted_wrt (\<lambda>a b. py_get (u_score a) 0 > py_get (u_score b) 0 \<or>
                      (py_get (u_score a) 0 = py_get (u_score b) 0 \<and>
                       py_get (rating a) 0 \<ge> py_get (rating b) 0))
         [ex_movie\<lparr>u_score := Some 8\<rparr>, ex_movie\<lparr>u_score := Some 5\<rparr>,
          ex_movie\<lparr>movie_id := Some (PInt 7), u_score := Some 5\<rparr>]"
proof -
  let ?ms = "[ex_movie, ex_movie\<lparr>rating := Some 9\<rparr>, ex_movie\<lparr>movie_id := Some (PInt 7)\<rparr>]"
  let ?out = "[ex_movie\<lparr>rating := Some 9, u_score := Some 198\<rparr>,
           ex_movie\<lparr>u_score := Some (1917 / 10)\<rparr>,
           ex_movie\<lparr>movie_id := Some (PInt 7), u_score := Some (1917 / 10)\<rparr>]"
  let ?post = "[ex_movie\<lparr>u_score := Some (1917 / 10)\<rparr>,
           ex_movie\<lparr>rating := Some 9, u_score := Some 198\<rparr>,
           ex_movie\<lparr>movie_id := Some (PInt 7), u_score := Some (1917 / 10)\<rparr>]"
  let ?xs = "[ex_movie\<lparr>u_score := Some 5\<rparr>, ex_movie\<lparr>movie_id := Some (PInt 7), u_score := Some 5\<rparr>,
          ex_movie\<lparr>u_score := Some 8\<rparr>]"
  let ?ys = "[ex_movie\<lparr>u_score := Some 8\<rparr>, ex_movie\<lparr>u_score := Some 5\<rparr>,
            ex_movie\<lparr>movie_id := Some (PInt 7), u_score := Some 5\<rparr>]"
  have e: "filter_high_rated_movies enhanced_config ex_fromisoformat ex_clock ?ms = Inr (?out, ?post)"
    by code_simp
  have h: "list_all (\<lambda>x. u_score x \<noteq> None) ?xs"
    by simp
  have s: "sort_movies ?xs = Inr ?ys"
    by code_simp
  note inst = presentation_order [of enhanced_config ex_fromisoformat ex_clock ?ms ?xs]
  from inst obtain out movies' where
    r: "filter_high_rated_movies enhanced_config ex_fromisoformat ex_clock ?ms = Inr (out, movies')"
    and t: "\<forall>s r. filter (\<lambda>m. py_get (u_score m) 0 = s \<and> py_get (rating m) 0 = r) out
           = filter (\<lambda>m. py_get (u_score m) 0 = s \<and> py_get (rating m) 0 = r)
               (admitted_in_order enhanced_config ex_fromisoformat ex_clock ?ms)"
    by blast
  from r e have o: "out = ?out" by simp
  from inst h obtain sorted_movies where
    r2: "sort_movies ?xs = Inr sorted_movies"
    and d2: "sorted_wrt (\<lambda>a b. py_get (u_score a) 0 > py_get (u_score b) 0 \<or>
                      (py_get (u_score a) 0 = py_get (u_score b) 0 \<and>
                       py_get (rating a) 0 \<ge> py_get (rating b) 0)) sorted_movies"
    by blast
  from r2 s have o2: "sorted_movies = ?ys" by simp
  from e t [rule_format, of "1917 / 10" "69 / 10"] h s d2 show ?thesis
    unfolding o o2 by (intro conjI)
qed

section \<open>Properties of \<open>calculate_movie_score\<close>\<close>

lemma total_seeds_update:
  assumes "i < length ts"
  shows "total_seeds (ts[i := (ts ! i)\<lparr>seeds := Some n\<rparr>])
           = total_seeds ts - py_get (seeds (ts ! i)) 0 + n"
  using assms
proof (induction ts arbitrary: i)
  case Nil
  then show ?case by simp
next
  case (Cons t ts)
  show ?case
  proof (cases i)
    case 0
    then show ?thesis by (simp add: total_seeds_def py_get_def)
  next
    case (Suc j)
    with Cons.prems have "j < length ts" by simp
    from Cons.IH [OF this] Suc show ?thesis by (simp add: total_seeds_def)
  qed
qed

lemma torrent_bonus_mono:
  assumes "torrents m = Some ts" and "length ts' = length ts" and "total_seeds ts \<le> total_seeds ts'"
  shows "torrent_bonus m \<le> torrent_bonus (m\<lparr>torrents := Some ts'\<rparr>)"
  using assms by (cases "ts = []") (auto simp: torrent_bonus_def py_get_def Let_def)

lemma mn_torrent_bonus_mono:
  assumes "torrents m = Some ts" and "length ts' = length ts" and "total_seeds ts \<le> total_seeds ts'"
  shows "mn_torrent_bonus m \<le> mn_torrent_bonus (m\<lparr>torrents := Some ts'\<rparr>)"
  using assms by (cases "ts = []") (auto simp: mn_torrent_bonus_def py_get_def Let_def)

lemma score_torrents_upd:
  "calculate_movie_score p clk (m\<lparr>torrents := v\<rparr>)
     = calculate_movie_score p clk m - torrent_bonus m + torrent_bonus (m\<lparr>torrents := v\<rparr>)"
  by (simp add: calculate_movie_score_def recency_bonus_def year_bonus_def genre_bonus_def
      title_bonus_def)

lemma mn_score_torrents_upd:
  "mn_calculate_movie_score clk (m\<lparr>torrents := v\<rparr>)
     = mn_calculate_movie_score clk m - mn_torrent_bonus m + mn_torrent_bonus (m\<lparr>torrents := v\<rparr>)"
  by (simp add: mn_calculate_movie_score_def mn_year_bonus_def mn_genre_bonus_def)

text \<open>
  Claim C7. Replacing the seed count of one torrent of an entry by a strictly larger
  value (a torrent without the key \<^verbatim>\<open>'seeds'\<close> counts as \<open>0\<close>), with every other field and
  the clock fixed, never lowers the score: for \<open>calculate_movie_score\<close> of the enhanced
  notifier and for that of \<^verbatim>\<open>movie_notifier.py\<close>.
\<close>

theorem score_monotone_in_seeds:
  assumes "torrents m = Some ts" and "i < length ts" and "py_get (seeds (ts ! i)) 0 < n"
  shows "calculate_movie_score p clk m
           \<le> calculate_movie_score p clk (m\<lparr>torrents := Some (ts[i := (ts ! i)\<lparr>seeds := Some n\<rparr>])\<rparr>)
       \<and> mn_calculate_movie_score clk m
           \<le> mn_calculate_movie_score clk (m\<lparr>torrents := Some (ts[i := (ts ! i)\<lparr>seeds := Some n\<rparr>])\<rparr>)"
proof -
  let ?ts' = "ts[i := (ts ! i)\<lparr>seeds := Some n\<rparr>]"
  have "total_seeds ts \<le> total_seeds ?ts'"
    using assms(2,3) by (simp add: total_seeds_update)
  moreover have "length ?ts' = length ts" by simp
  ultimately have "torrent_bonus m \<le> torrent_bonus (m\<lparr>torrents := Some ?ts'\<rparr>)"
    and "mn_torrent_bonus m \<le> mn_torrent_bonus (m\<lparr>torrents := Some ?ts'\<rparr>)"
    using assms(1) by (simp_all add: torrent_bonus_mono mn_torrent_bonus_mono)
  then show ?thesis
    by (simp add: score_torrents_upd mn_score_torrents_upd)
qed

theorem score_monotone_in_seeds_witness:
  "torrents ex_movie = Some [ex_torrent 40, ex_torrent 30]
   \<and> (0::nat) < length [ex_torrent 40, ex_torrent 30]
   \<and> py_get (seeds ([ex_torrent 40, ex_torrent 30] ! 0)) 0 < 500
   \<and> calculate_movie_score ex_fromisoformat ex_clock ex_movie
        \<le> calculate_movie_score ex_fromisoformat ex_clock
             (ex_movie\<lparr>torrents := Some [ex_torrent 500, ex_torrent 30]\<rparr>)
   \<and> mn_calculate_movie_score ex_clock ex_movie
        \<le> mn_calculate_movie_score ex_clock
             (ex_movie\<lparr>torrents := Some [ex_torrent 500, ex_torrent 30]\<rparr>)"
proof -
  have h1: "torrents ex_movie = Some [ex_torrent 40, ex_torrent 30]"
    by (simp add: ex_movie_def)
  have h2: "(0::nat) < length [ex_torrent 40, ex_torrent 30]" by simp
  have h3: "py_get (seeds ([ex_torrent 40, ex_torrent 30] ! 0)) 0 < 500"
    by (simp add: ex_torrent_def py_get_def)
  have u: "[ex_torrent 40, ex_torrent 30][0 := ([ex_torrent 40, ex_torrent 30] ! 0)\<lparr>seeds := Some 500\<rparr>]
             = [ex_torrent 500, ex_torrent 30]"
    by (simp add: ex_torrent_def)
  from score_monotone_in_seeds [OF h1 h2 h3, of ex_fromisoformat ex_clock] h1 h2 h3
  show ?thesis unfolding u by (intro conjI) simp_all
qed

lemma score_date_upd:
  "calculate_movie_score p clk (m\<lparr>date_uploaded := v\<rparr>)
     = py_get (rating m) 0 * 3 + recency_bonus p clk (m\<lparr>date_uploaded := v\<rparr>)
       + year_bonus clk m + genre_bonus m + torrent_bonus m + title_bonus m"
  by (simp add: calculate_movie_score_def year_bonus_def genre_bonus_def torrent_bonus_def
      title_bonus_def)

lemma recency_bonus_missing:
  "recency_bonus p clk (m\<lparr>date_uploaded := None\<rparr>) = 0"
  "recency_bonus p clk (m\<lparr>date_uploaded := Some []\<rparr>) = 0"
  by (simp_all add: recency_bonus_def py_get_def)

lemma recency_bonus_present:
  "s \<noteq> [] \<Longrightarrow> recency_bonus p clk (m\<lparr>date_uploaded := Some s\<rparr>) =
     (case p (replace_Z s) of
        None \<Rightarrow> 15
      | Some t \<Rightarrow>
          if (now_seconds clk - t) / 3600 \<le> 24 then 100
          else if (now_seconds clk - t) / 3600 \<le> 72 then 60
          else if (now_seconds clk - t) / 3600 \<le> 168 then 40
          else if (now_seconds clk - t) / 3600 \<le> 720 then 20
          else 10)"
  by (simp add: recency_bonus_def py_get_def Let_def split: option.split)

text \<open>
  Claim C2, as stated, fails for a missing timestamp: the block that awards the recency
  bonus is guarded by \<^verbatim>\<open>if date_added:\<close>, so an entry without \<^verbatim>\<open>'date_uploaded'\<close> gets no
  recency bonus, while the same entry with an unparseable timestamp gets 15. The two
  scores differ.
\<close>

theorem missing_timestamp_counterexample:
  "ex_fromisoformat (replace_Z ''not a date'') = None
   \<and> calculate_movie_score ex_fromisoformat ex_clock (ex_movie\<lparr>date_uploaded := Some ''not a date''\<rparr>)
       = 1067 / 10
   \<and> calculate_movie_score ex_fromisoformat ex_clock (ex_movie\<lparr>date_uploaded := None\<rparr>)
       = 917 / 10
   \<and> calculate_movie_score ex_fromisoformat ex_clock (ex_movie\<lparr>date_uploaded := None\<rparr>)
       \<noteq> calculate_movie_score ex_fromisoformat ex_clock (ex_movie\<lparr>date_uploaded := Some ''not a date''\<rparr>)"
  by (simp add: eval_defs)

text \<open>
  Claim C2, amended. Relative to the same entry without a timestamp, whose score has no
  recency term, an entry with a non-empty timestamp scores higher by the tier of its age
  in hours when the timestamp parses (100 up to 24 hours, 60 up to 72, 40 up to 168, 20
  up to 720, 10 beyond) and by 15 when it does not parse; an empty timestamp scores as a
  missing one. Hence an entry listed 2 hours before the clock reading scores strictly
  higher than the otherwise identical entry listed 200 hours before it.
\<close>

theorem listing_recency_contribution:
  "calculate_movie_score p clk (m\<lparr>date_uploaded := None\<rparr>)
     = py_get (rating m) 0 * 3 + year_bonus clk m + genre_bonus m + torrent_bonus m + title_bonus m
   \<and> calculate_movie_score p clk (m\<lparr>date_uploaded := Some []\<rparr>)
     = calculate_movie_score p clk (m\<lparr>date_uploaded := None\<rparr>)
   \<and> (s \<noteq> [] \<and> p (replace_Z s) = None \<longrightarrow>
        calculate_movie_score p clk (m\<lparr>date_uploaded := Some s\<rparr>)
          = calculate_movie_score p clk (m\<lparr>date_uploaded := None\<rparr>) + 15)
   \<and> (s \<noteq> [] \<and> p (replace_Z s) = Some t \<longrightarrow>
        calculate_movie_score p clk (m\<lparr>date_uploaded := Some s\<rparr>)
          = calculate_movie_score p clk (m\<lparr>date_uploaded := None\<rparr>)
            + (if (now_seconds clk - t) / 3600 \<le> 24 then 100
               else if (now_seconds clk - t) / 3600 \<le> 72 then 60
               else if (now_seconds clk - t) / 3600 \<le> 168 then 40
               else if (now_seconds clk - t) / 3600 \<le> 720 then 20
               else 10))
   \<and> (s1 \<noteq> [] \<and> s2 \<noteq> [] \<and> p (replace_Z s1) = Some (now_seconds clk - 2 * 3600)
        \<and> p (replace_Z s2) = Some (now_seconds clk - 200 * 3600) \<longrightarrow>
        calculate_movie_score p clk (m\<lparr>date_uploaded := Some s2\<rparr>)
          < calculate_movie_score p clk (m\<lparr>date_uploaded := Some s1\<rparr>))"
proof (intro conjI impI)
  show "calculate_movie_score p clk (m\<lparr>date_uploaded := None\<rparr>)
     = py_get (rating m) 0 * 3 + year_bonus clk m + genre_bonus m + torrent_bonus m + title_bonus m"
    by (simp add: score_date_upd recency_bonus_missing)
  show "calculate_movie_score p clk (m\<lparr>date_uploaded := Some []\<rparr>)
     = calculate_movie_score p clk (m\<lparr>date_uploaded := None\<rparr>)"
    by (simp add: score_date_upd recency_bonus_missing)
next
  assume "s \<noteq> [] \<and> p (replace_Z s) = None"
  then show "calculate_movie_score p clk (m\<lparr>date_uploaded := Some s\<rparr>)
          = calculate_movie_score p clk (m\<lparr>date_uploaded := None\<rparr>) + 15"
    by (simp add: score_date_upd recency_bonus_missing recency_bonus_present)
next
  assume "s \<noteq> [] \<and> p (replace_Z s) = Some t"
  then show "calculate_movie_score p clk (m\<lparr>date_uploaded := Some s\<rparr>)
          = calculate_movie_score p clk (m\<lparr>date_uploaded := None\<rparr>)
            + (if (now_seconds clk - t) / 3600 \<le> 24 then 100
               else if (now_seconds clk - t) / 3600 \<le> 72 then 60
               else if (now_seconds clk - t) / 3600 \<le> 168 then 40
               else if (now_seconds clk - t) / 3600 \<le> 720 then 20
               else 10)"
    by (simp add: score_date_upd recency_bonus_missing recency_bonus_present)
next
  assume "s1 \<noteq> [] \<and> s2 \<noteq> [] \<and> p (replace_Z s1) = Some (now_seconds clk - 2 * 3600)
        \<and> p (replace_Z s2) = Some (now_seconds clk - 200 * 3600)"
  then show "calculate_movie_score p clk (m\<lparr>date_uploaded := Some s2\<rparr>)
          < calculate_movie_score p clk (m\<lparr>date_uploaded := Some s1\<rparr>)"
    by (simp add: score_date_upd recency_bonus_present)
qed

theorem listing_recency_contribution_witness:
  "''2025-06-20T10:00:00Z'' \<noteq> [] \<and> ''2025-06-12T04:00:00Z'' \<noteq> []
   \<and> ex_fromisoformat (replace_Z ''2025-06-20T10:00:00Z'') = Some (now_seconds ex_clock - 2 * 3600)
   \<and> ex_fromisoformat (replace_Z ''2025-06-12T04:00:00Z'') = Some (now_seconds ex_clock - 200 * 3600)
   \<and> ''not a date'' \<noteq> [] \<and> ex_fromisoformat (replace_Z ''not a date'') = None
   \<and> calculate_movie_score ex_fromisoformat ex_clock (ex_movie\<lparr>date_uploaded := Some ''2025-06-12T04:00:00Z''\<rparr>)
       < calculate_movie_score ex_fromisoformat ex_clock (ex_movie\<lparr>date_uploaded := Some ''2025-06-20T10:00:00Z''\<rparr>)
   \<and> calculate_movie_score ex_fromisoformat ex_clock (ex_movie\<lparr>date_uploaded := Some ''not a date''\<rparr>)
       = calculate_movie_score ex_fromisoformat ex_clock (ex_movie\<lparr>date_uploaded := None\<rparr>) + 15"
proof -
  have h: "''2025-06-20T10:00:00Z'' \<noteq> [] \<and> ''2025-06-12T04:00:00Z'' \<noteq> []
   \<and> ex_fromisoformat (replace_Z ''2025-06-20T10:00:00Z'') = Some (now_seconds ex_clock - 2 * 3600)
   \<and> ex_fromisoformat (replace_Z ''2025-06-12T04:00:00Z'') = Some (now_seconds ex_clock - 200 * 3600)"
    by (simp add: ex_fromisoformat_def replace_Z_def ex_clock_def)
  have g: "''not a date'' \<noteq> [] \<and> ex_fromisoformat (replace_Z ''not a date'') = None"
    by (simp add: ex_fromisoformat_def replace_Z_def)
  note t = listing_recency_contribution [of ex_fromisoformat ex_clock ex_movie "''not a date''" _
      "''2025-06-20T10:00:00Z''" "''2025-06-12T04:00:00Z''"]
  from t h have a: "calculate_movie_score ex_fromisoformat ex_clock (ex_movie\<lparr>date_uploaded := Some ''2025-06-12T04:00:00Z''\<rparr>)
       < calculate_movie_score ex_fromisoformat ex_clock (ex_movie\<lparr>date_uploaded := Some ''2025-06-20T10:00:00Z''\<rparr>)"
    by blast
  from t g have b: "calculate_movie_score ex_fromisoformat ex_clock (ex_movie\<lparr>date_uploaded := Some ''not a date''\<rparr>)
       = calculate_movie_score ex_fromisoformat ex_clock (ex_movie\<lparr>date_uploaded := None\<rparr>) + 15"
    by blast
  from h g a b show ?thesis by (intro conjI) blast+
qed

text \<open>
  Claim C8, as stated, fails: \<^verbatim>\<open>calculate_movie_score(self, movie)\<close> has no time argument
  and reads the system clock itself. With the entry fixed, the score changes when the
  clock stands two days later (the listing falls from the 24-hour tier to the 72-hour
  tier) and when the clock's year is the next one.
\<close>

theorem score_reads_clock_counterexample:
  "calculate_movie_score ex_fromisoformat ex_clock ex_movie = 1917 / 10
   \<and> calculate_movie_score ex_fromisoformat (ex_clock\<lparr>now_seconds := 1750593600\<rparr>) ex_movie
       = 1517 / 10
   \<and> calculate_movie_score ex_fromisoformat (ex_clock\<lparr>now_year := 2026\<rparr>) ex_movie
       = 1817 / 10
   \<and> calculate_movie_score ex_fromisoformat ex_clock ex_movie
       \<noteq> calculate_movie_score ex_fromisoformat (ex_clock\<lparr>now_seconds := 1750593600\<rparr>) ex_movie"
  by (simp add: eval_defs)

text \<open>
  Claim C8, amended. The score is determined by the entry and the two clock readings the
  method makes: two evaluations of the same entry agree when the clock gives the same
  year and the same instant; the instant is read only when the entry has a non-empty
  timestamp that parses, so otherwise the same year suffices.
\<close>

theorem score_determined_by_clock_readings:
  assumes "now_year c1 = now_year c2"
    and "now_seconds c1 = now_seconds c2
         \<or> py_get (date_uploaded m) [] = []
         \<or> p (replace_Z (py_get (date_uploaded m) [])) = None"
  shows "calculate_movie_score p c1 m = calculate_movie_score p c2 m"
proof -
  have y: "year_bonus c1 m = year_bonus c2 m"
    using assms(1) by (simp add: year_bonus_def)
  have r: "recency_bonus p c1 m = recency_bonus p c2 m"
    using assms(2) by (auto simp: recency_bonus_def Let_def split: option.split)
  show ?thesis
    by (simp add: calculate_movie_score_def y r)
qed

theorem score_determined_by_clock_readings_witness:
  "now_year ex_clock = now_year (ex_clock\<lparr>now_seconds := 1750593600\<rparr>)
   \<and> py_get (date_uploaded (ex_movie\<lparr>date_uploaded := None\<rparr>)) [] = []
   \<and> calculate_movie_score ex_fromisoformat ex_clock (ex_movie\<lparr>date_uploaded := None\<rparr>)
       = calculate_movie_score ex_fromisoformat (ex_clock\<lparr>now_seconds := 1750593600\<rparr>)
           (ex_movie\<lparr>date_uploaded := None\<rparr>)"
proof -
  have h1: "now_year ex_clock = now_year (ex_clock\<lparr>now_seconds := 1750593600\<rparr>)"
    by simp
  have h2: "py_get (date_uploaded (ex_movie\<lparr>date_uploaded := None\<rparr>)) [] = []"
    by (simp add: py_get_def)
  from h2 have h3: "now_seconds ex_clock = now_seconds (ex_clock\<lparr>now_seconds := 1750593600\<rparr>)
         \<or> py_get (date_uploaded (ex_movie\<lparr>date_uploaded := None\<rparr>)) [] = []
         \<or> ex_fromisoformat (replace_Z (py_get (date_uploaded (ex_movie\<lparr>date_uploaded := None\<rparr>)) [])) = None"
    by blast
  from score_determined_by_clock_readings [of ex_clock "ex_clock\<lparr>now_seconds := 1750593600\<rparr>"
      "ex_movie\<lparr>date_uploaded := None\<rparr>" ex_fromisoformat, OF h1 h3] h1 h2 show ?thesis
    by (intro conjI)
qed

end
